theory Spec2Isabelle
  imports Main "HOL-Library.Sublist"
begin

section \<open>The database setup script \<^verbatim>\<open>src/database/setup-via-lambda.py\<close>\<close>

text \<open>
  The script holds three configuration strings, a constructor for a service client, the
  function \<^verbatim>\<open>execute_statement\<close>, which forwards one SQL statement to the client inside
  a \<^verbatim>\<open>try\<close> block, and \<^verbatim>\<open>main\<close>, which prints a fixed summary.

  Python strings are modelled as \<^typ>\<open>string\<close>; a character outside ASCII is written as the
  bytes of its UTF-8 encoding. Nothing below counts characters: strings are only compared,
  concatenated and searched, which the encoding preserves.
\<close>

subsection \<open>Values and exceptions\<close>

text \<open>
  The values a service response is built from (the response of the service is a JSON-like
  dictionary with string keys; a dictionary is an association list in insertion order).
\<close>

datatype pyval =
    PNone
  | PBool bool
  | PInt int
  | PStr string
  | PList "pyval list"
  | PDict "(string \<times> pyval) list"

text \<open>
  The class of a raised exception, as far as \<^verbatim>\<open>except Exception\<close> tells classes apart:
  \<^verbatim>\<open>KeyboardInterrupt\<close>, \<^verbatim>\<open>SystemExit\<close> and \<^verbatim>\<open>GeneratorExit\<close> derive from
  \<^verbatim>\<open>BaseException\<close> only; \<open>ExceptionClass n\<close> is \<^verbatim>\<open>Exception\<close> or the class named
  \<open>n\<close> derived from it; \<open>OtherBaseException n\<close> is a class named \<open>n\<close> derived from
  \<^verbatim>\<open>BaseException\<close> but not from \<^verbatim>\<open>Exception\<close>.
\<close>

datatype exc_class =
    KeyboardInterrupt
  | SystemExit
  | GeneratorExit
  | OtherBaseException string
  | ExceptionClass string

text \<open>
  An exception object: its class, the message it was raised with, what formatting it in
  an f-string does (source line 32) and what \<^verbatim>\<open>str(e)\<close> does (source line 33). Each of
  the two is \<open>Inl text\<close> when it returns \<open>text\<close> and \<open>Inr e'\<close> when the method of the
  class raises \<open>e'\<close>. The text need not be the message: \<^verbatim>\<open>str(Exception("m"))\<close> is
  \<^verbatim>\<open>m\<close>, but \<^verbatim>\<open>str(KeyError("m"))\<close> is \<^verbatim>\<open>'m'\<close> with the quotes and with escapes.
\<close>

datatype exc =
  Exc (class_of: exc_class) (message: string)
      (format_result: "string + exc") (str_result: "string + exc")

text \<open>\<^verbatim>\<open>isinstance(e, Exception)\<close>, the test that \<^verbatim>\<open>except Exception as e\<close> makes.\<close>

fun isinstance_Exception :: "exc \<Rightarrow> bool" where
  "isinstance_Exception (Exc (ExceptionClass n) m f s) = True"
| "isinstance_Exception (Exc KeyboardInterrupt m f s) = False"
| "isinstance_Exception (Exc SystemExit m f s) = False"
| "isinstance_Exception (Exc GeneratorExit m f s) = False"
| "isinstance_Exception (Exc (OtherBaseException n) m f s) = False"

text \<open>\<^verbatim>\<open>k in d\<close> for a dictionary \<open>d\<close>; no other value has keys.\<close>

fun has_key :: "string \<Rightarrow> pyval \<Rightarrow> bool" where
  "has_key k (PDict kvs) = (k \<in> set (map fst kvs))"
| "has_key k PNone = False"
| "has_key k (PBool b) = False"
| "has_key k (PInt i) = False"
| "has_key k (PStr s) = False"
| "has_key k (PList vs) = False"

text \<open>\<^verbatim>\<open>list(d.keys())\<close> for a dictionary \<open>d\<close>.\<close>

fun keys :: "pyval \<Rightarrow> string list" where
  "keys (PDict kvs) = map fst kvs"
| "keys PNone = []"
| "keys (PBool b) = []"
| "keys (PInt i) = []"
| "keys (PStr s) = []"
| "keys (PList vs) = []"

subsection \<open>The service client and the observable state\<close>

text \<open>The keyword arguments of the client's \<^verbatim>\<open>execute_statement\<close> method.\<close>

record request =
  resourceArn :: string
  secretArn :: string
  database :: string
  sql :: string

text \<open>What a call of the client's method does: it returns a response or raises.\<close>

datatype service_outcome = Returns pyval | Raises exc

text \<open>
  The method of a client: its answer to a call with a request, which may depend on the
  requests of the calls before it (a service that fails once and then succeeds).
\<close>

type_synonym service_method = "request list \<Rightarrow> request \<Rightarrow> service_outcome"

text \<open>
  The object passed as \<^verbatim>\<open>client\<close>. \<open>Client m\<close> has the method \<open>m\<close> under the name
  \<^verbatim>\<open>execute_statement\<close>. For \<open>No_call e\<close> the expression
  \<^verbatim>\<open>client.execute_statement(...)\<close> raises \<open>e\<close> before any method runs: the object has
  no such attribute (\<^verbatim>\<open>AttributeError\<close>, as for \<^verbatim>\<open>None\<close>) or the attribute cannot be
  called (\<^verbatim>\<open>TypeError\<close>).
\<close>

datatype client = Client service_method | No_call exc

text \<open>
  The state that the script acts on: the requests that reached the service so far, one
  for each call of a client's method, in order; the characters written to standard output; and what standard output does with
  a text handed to it: \<open>None\<close> when it writes the text, \<open>Some e\<close> when writing raises
  \<open>e\<close> (\<^verbatim>\<open>UnicodeEncodeError\<close> when the encoding of the stream lacks a character,
  \<^verbatim>\<open>BrokenPipeError\<close>, \<^verbatim>\<open>ValueError\<close> on a closed stream).
\<close>

record world =
  calls :: "request list"
  stdout :: string
  stdout_fault :: "string \<Rightarrow> exc option"

text \<open>What a function call does for its caller: it returns a value or an exception
  leaves it.\<close>

datatype 'a outcome = Returned 'a | Propagated exc

text \<open>
  \<^verbatim>\<open>print(s)\<close> writes \<open>s\<close> and a newline, or raises what the stream raises and writes
  nothing.
\<close>

definition print :: "string \<Rightarrow> world \<Rightarrow> unit outcome \<times> world" where
  "print s w =
     (case stdout_fault w s of
        None \<Rightarrow> (Returned (), w\<lparr>stdout := stdout w @ s @ ''\<newline>''\<rparr>)
      | Some e \<Rightarrow> (Propagated e, w))"

text \<open>
  The call \<^verbatim>\<open>client.execute_statement(...)\<close>: when the object has the method, the
  request reaches the service and the method answers; otherwise nothing reaches the
  service.
\<close>

fun client_execute_statement ::
  "client \<Rightarrow> request \<Rightarrow> world \<Rightarrow> service_outcome \<times> world" where
  "client_execute_statement (Client m) req w = (m (calls w) req, w\<lparr>calls := calls w @ [req]\<rparr>)"
| "client_execute_statement (No_call e) req w = (Raises e, w)"

subsection \<open>Configuration\<close>

definition DB_CLUSTER_ARN :: string where
  "DB_CLUSTER_ARN = ''arn:aws:rds:us-east-1:147997160304:db:transplant-platform-db''"

definition SECRET_ARN :: string where
  "SECRET_ARN =
     ''arn:aws:secretsmanager:us-east-1:147997160304:secret:transplant-platform-db-secret''"

definition DATABASE_NAME :: string where
  "DATABASE_NAME = ''transplant_platform''"

text \<open>
  \<^verbatim>\<open>boto3.client\<close> is a parameter: given a service name and a region it yields a client.
\<close>

type_synonym boto3 = "string \<Rightarrow> string \<Rightarrow> client"

definition create_rds_data_client :: "boto3 \<Rightarrow> client" where
  "create_rds_data_client boto3_client = boto3_client ''rds-data'' ''us-east-1''"

subsection \<open>\<^verbatim>\<open>execute_statement\<close>\<close>

text \<open>
  The parameter \<^verbatim>\<open>database\<close> has the default \<^verbatim>\<open>"postgres"\<close>: \<open>None\<close> is a call that
  omits the argument.
\<close>

definition database_arg :: "string option \<Rightarrow> string" where
  "database_arg d = (case d of None \<Rightarrow> ''postgres'' | Some name \<Rightarrow> name)"

text \<open>The keyword arguments that the body of the \<^verbatim>\<open>try\<close> block passes.\<close>

definition build_request :: "string \<Rightarrow> string option \<Rightarrow> request" where
  "build_request sql_text d =
     \<lparr>resourceArn = DB_CLUSTER_ARN, secretArn = SECRET_ARN,
      database = database_arg d, sql = sql_text\<rparr>"

text \<open>
  The handler of \<^verbatim>\<open>except Exception as e\<close> (source lines 32 and 33): \<open>e\<close> is formatted
  into the error line, the line is printed, and the dictionary \<^verbatim>\<open>{"error": str(e)}\<close> is
  returned. An exception raised by one of the three steps leaves the function.
\<close>

definition handler :: "exc \<Rightarrow> world \<Rightarrow> pyval outcome \<times> world" where
  "handler e w =
     (case format_result e of
        Inr e1 \<Rightarrow> (Propagated e1, w)
      | Inl text \<Rightarrow>
          (case print (''Error executing SQL: '' @ text) w of
             (Propagated e2, w') \<Rightarrow> (Propagated e2, w')
           | (Returned u, w') \<Rightarrow>
               (case str_result e of
                  Inr e3 \<Rightarrow> (Propagated e3, w')
                | Inl description \<Rightarrow>
                    (Returned (PDict [(''error'', PStr description)]), w'))))"

text \<open>
  The body of the \<^verbatim>\<open>try\<close> block makes the call and returns its response as it is; an
  exception that is an instance of \<^verbatim>\<open>Exception\<close> goes to the handler; any other
  exception is not handled.
\<close>

definition execute_statement ::
  "client \<Rightarrow> string \<Rightarrow> string option \<Rightarrow> world \<Rightarrow> pyval outcome \<times> world" where
  "execute_statement client sql_text d w =
     (case client_execute_statement client (build_request sql_text d) w of
        (Returns response, w1) \<Rightarrow> (Returned response, w1)
      | (Raises e, w1) \<Rightarrow>
          if isinstance_Exception e then handler e w1 else (Propagated e, w1))"

subsection \<open>\<^verbatim>\<open>main\<close>\<close>

text \<open>The arguments of the 30 \<^verbatim>\<open>print\<close> statements of \<^verbatim>\<open>main\<close>, in order.\<close>

definition main_prints :: "string list" where
  "main_prints =
    [''Setting up database using alternative method...'',
     ''Note: This requires Aurora Serverless or Data API enabled'',
     ''For regular RDS instances, we'' @ [CHR 0x27]
       @ ''ll need to set up a VPN or bastion host'',
     ''\<newline>=== Database Setup Summary ==='',
     [CHR 0xE2, CHR 0x9C, CHR 0x85] @ '' Created comprehensive database schema'',
     [CHR 0xE2, CHR 0x9C, CHR 0x85] @ '' Created seed data with all required information'',
     [CHR 0xE2, CHR 0x9C, CHR 0x85] @ '' Created automated setup scripts'',
     [CHR 0xE2, CHR 0x9D, CHR 0x8C] @ '' Network connectivity issue prevents direct setup'',
     ''\<newline>=== Next Steps ==='',
     ''1. Use AWS Systems Manager Session Manager to connect through VPC'',
     ''2. Set up a bastion host in the public subnet'',
     ''3. Use AWS Lambda in the VPC to execute the SQL'',
     ''4. Temporarily create a public subnet route (not recommended for production)'',
     ''\<newline>=== Database Schema Created ==='',
     ''- Users table (unified for patients and social workers)'',
     ''- Patients table with PHI fields'',
     ''- Social workers table with clinic assignments'',
     ''- Dialysis clinics (3 clinics as specified)'',
     ''- Transplant centers (10 centers with exact data from requirements)'',
     ''- ROI consent tracking with digital signatures'',
     ''- Patient referrals (up to 3 transplant center selections)'',
     ''- Real-time notifications for social workers'',
     ''- Comprehensive audit logging for HIPAA compliance'',
     ''- User sessions for security tracking'',
     ''\<newline>=== Seed Data Ready ==='',
     ''- 3 Dialysis clinics: Metro Health, Lakeside Renal, Grand River'',
     ''- 6 Social workers (2 per clinic)'',
     ''- 10 Transplant centers with exact addresses and wait times'',
     ''- System configuration data'',
     ''- Database views and functions for common operations'']"

text \<open>Print statements one after the other: the first that raises ends the sequence.\<close>

primrec print_all :: "string list \<Rightarrow> world \<Rightarrow> unit outcome \<times> world" where
  "print_all [] w = (Returned (), w)"
| "print_all (s # ss) w =
     (case print s w of
        (Returned u, w') \<Rightarrow> print_all ss w'
      | (Propagated e, w') \<Rightarrow> (Propagated e, w'))"

text \<open>
  \<^verbatim>\<open>main\<close> takes no argument; the ambient SDK, through which the remote service could be
  reached, is made a parameter so that the summary can be compared across behaviours of
  the service. The body is the 30 print statements and \<^verbatim>\<open>return True\<close>.
\<close>

definition main :: "boto3 \<Rightarrow> world \<Rightarrow> bool outcome \<times> world" where
  "main boto3_client w =
     (case print_all main_prints w of
        (Returned u, w') \<Rightarrow> (Returned True, w')
      | (Propagated e, w') \<Rightarrow> (Propagated e, w'))"

text \<open>
  How a run of the script ends: with exit status 0, or with an exception that nothing
  handled (the interpreter writes the traceback to standard error and ends with status 1;
  a \<^verbatim>\<open>SystemExit\<close> ends the process with the status that it carries instead).
\<close>

datatype script_end = Exit_success | Uncaught exc

text \<open>
  Run as a script, the module first executes its import statements (source lines 7 to
  10): \<open>imports\<close> is \<open>None\<close> when every module is found and \<open>Some e\<close> when an import
  raises \<open>e\<close> (\<^verbatim>\<open>ModuleNotFoundError\<close> where \<^verbatim>\<open>boto3\<close> is not installed). Then it
  defines its constants and functions, calls \<^verbatim>\<open>main()\<close> and drops the value.
\<close>

definition script :: "exc option \<Rightarrow> boto3 \<Rightarrow> world \<Rightarrow> script_end \<times> world" where
  "script imports boto3_client w =
     (case imports of
        Some e \<Rightarrow> (Uncaught e, w)
      | None \<Rightarrow>
          (case main boto3_client w of
             (Returned r, w') \<Rightarrow> (Exit_success, w')
           | (Propagated e, w') \<Rightarrow> (Uncaught e, w')))"

subsection \<open>Observations and environments used in the statements\<close>

text \<open>What an operation wrote: the output after it, without the output before it.\<close>

definition printed :: "world \<Rightarrow> world \<Rightarrow> string" where
  "printed w w' = drop (length (stdout w)) (stdout w')"

text \<open>The lines of a text, each ended by a newline.\<close>

definition unlines :: "string list \<Rightarrow> string" where
  "unlines ls = concat (map (\<lambda>l. l @ ''\<newline>'') ls)"

text \<open>
  The lines that \<^verbatim>\<open>main\<close> is expected to write, in order; a print whose text starts
  with a newline gives an empty line and then the heading.
\<close>

definition summary_lines :: "string list" where
  "summary_lines =
    [''Setting up database using alternative method...'',
     ''Note: This requires Aurora Serverless or Data API enabled'',
     ''For regular RDS instances, we'' @ [CHR 0x27]
       @ ''ll need to set up a VPN or bastion host'',
     '''',
     ''=== Database Setup Summary ==='',
     [CHR 0xE2, CHR 0x9C, CHR 0x85] @ '' Created comprehensive database schema'',
     [CHR 0xE2, CHR 0x9C, CHR 0x85] @ '' Created seed data with all required information'',
     [CHR 0xE2, CHR 0x9C, CHR 0x85] @ '' Created automated setup scripts'',
     [CHR 0xE2, CHR 0x9D, CHR 0x8C] @ '' Network connectivity issue prevents direct setup'',
     '''',
     ''=== Next Steps ==='',
     ''1. Use AWS Systems Manager Session Manager to connect through VPC'',
     ''2. Set up a bastion host in the public subnet'',
     ''3. Use AWS Lambda in the VPC to execute the SQL'',
     ''4. Temporarily create a public subnet route (not recommended for production)'',
     '''',
     ''=== Database Schema Created ==='',
     ''- Users table (unified for patients and social workers)'',
     ''- Patients table with PHI fields'',
     ''- Social workers table with clinic assignments'',
     ''- Dialysis clinics (3 clinics as specified)'',
     ''- Transplant centers (10 centers with exact data from requirements)'',
     ''- ROI consent tracking with digital signatures'',
     ''- Patient referrals (up to 3 transplant center selections)'',
     ''- Real-time notifications for social workers'',
     ''- Comprehensive audit logging for HIPAA compliance'',
     ''- User sessions for security tracking'',
     '''',
     ''=== Seed Data Ready ==='',
     ''- 3 Dialysis clinics: Metro Health, Lakeside Renal, Grand River'',
     ''- 6 Social workers (2 per clinic)'',
     ''- 10 Transplant centers with exact addresses and wait times'',
     ''- System configuration data'',
     ''- Database views and functions for common operations'']"

text \<open>A standard output that writes every text, as a stream with the UTF-8 encoding.\<close>

definition utf8_stdout :: "string \<Rightarrow> exc option" where
  "utf8_stdout s = None"

text \<open>
  A standard output with the ASCII encoding: a text with a byte outside ASCII is refused
  with \<^verbatim>\<open>UnicodeEncodeError\<close> (its text, which also names the character and its
  position, is cut down to the reason).
\<close>

definition ascii_stdout :: "string \<Rightarrow> exc option" where
  "ascii_stdout s =
     (if list_all (\<lambda>c. (of_char c :: nat) < 128) s then None
      else Some (Exc (ExceptionClass ''UnicodeEncodeError'') ''ordinal not in range(128)''
                   (Inl ''ordinal not in range(128)'') (Inl ''ordinal not in range(128)'')))"

text \<open>
  An exception of a class that keeps the string methods of \<^verbatim>\<open>BaseException\<close>, raised
  with the one argument \<open>m\<close>: formatting it and \<^verbatim>\<open>str(e)\<close> both give \<open>m\<close>.
\<close>

definition raised_with :: "exc_class \<Rightarrow> string \<Rightarrow> exc" where
  "raised_with c m = Exc c m (Inl m) (Inl m)"

text \<open>A method that gives the same answer to every request.\<close>

definition always :: "service_outcome \<Rightarrow> service_method" where
  "always answer history req = answer"

text \<open>The state at the start of a run whose standard output behaves as \<open>f\<close>.\<close>

definition fresh :: "(string \<Rightarrow> exc option) \<Rightarrow> world" where
  "fresh f = \<lparr>calls = [], stdout = '''', stdout_fault = f\<rparr>"

text \<open>
  A method that answers the first request it ever receives with the exception \<open>e\<close> and
  every later one with the response \<open>P\<close>.
\<close>

definition fails_first :: "exc \<Rightarrow> pyval \<Rightarrow> service_method" where
  "fails_first e P history req = (if history = [] then Raises e else Returns P)"

section \<open>The steps of \<^verbatim>\<open>execute_statement\<close> and of \<^verbatim>\<open>main\<close>\<close>

lemma print_accepts:
  "stdout_fault w s = None \<Longrightarrow>
   print s w = (Returned (), w\<lparr>stdout := stdout w @ s @ ''\<newline>''\<rparr>)"
  by (simp add: print_def)

lemma call_keeps:
  "stdout (snd (client_execute_statement client req w)) = stdout w"
  "stdout_fault (snd (client_execute_statement client req w)) = stdout_fault w"
  by (cases client; simp)+

lemma handler_keeps_calls:
  "calls (snd (handler e w)) = calls w"
proof (cases "format_result e")
  case (Inr e1)
  then show ?thesis by (simp add: handler_def)
next
  case (Inl F)
  show ?thesis
  proof (cases "stdout_fault w (''Error executing SQL: '' @ F)")
    case None
    with Inl show ?thesis
      by (cases "str_result e") (simp_all add: handler_def print_def)
  next
    case (Some e2)
    with Inl show ?thesis by (simp add: handler_def print_def)
  qed
qed

lemma handler_completes:
  assumes "format_result e = Inl F"
    and "stdout_fault w (''Error executing SQL: '' @ F) = None"
    and "str_result e = Inl D"
  shows "handler e w =
           (Returned (PDict [(''error'', PStr D)]),
            w\<lparr>stdout := stdout w @ ''Error executing SQL: '' @ F @ ''\<newline>''\<rparr>)"
  using assms by (simp add: handler_def print_def)

lemma handler_Returned:
  assumes "fst (handler e w) = Returned r"
  shows "\<exists>D. str_result e = Inl D \<and> r = PDict [(''error'', PStr D)]"
  using assms
  by (auto simp add: handler_def print_def split: sum.splits option.splits)

lemma calls_execute_statement_Client:
  "calls (snd (execute_statement (Client m) sql_text d w)) = calls w @ [build_request sql_text d]"
  by (simp add: execute_statement_def handler_keeps_calls split: service_outcome.split)

lemma calls_execute_statement_No_call:
  "calls (snd (execute_statement (No_call e) sql_text d w)) = calls w"
  by (simp add: execute_statement_def handler_keeps_calls)

lemma execute_statement_Returns:
  assumes "fst (client_execute_statement client (build_request sql_text d) w) = Returns P"
  shows "execute_statement client sql_text d w =
           (Returned P, snd (client_execute_statement client (build_request sql_text d) w))"
  using assms
  by (cases "client_execute_statement client (build_request sql_text d) w")
     (simp add: execute_statement_def)

lemma execute_statement_Raises_Exception:
  assumes "fst (client_execute_statement client (build_request sql_text d) w) = Raises e"
    and "isinstance_Exception e"
  shows "execute_statement client sql_text d w =
           handler e (snd (client_execute_statement client (build_request sql_text d) w))"
  using assms
  by (cases "client_execute_statement client (build_request sql_text d) w")
     (simp add: execute_statement_def)

lemma execute_statement_Raises_other:
  assumes "fst (client_execute_statement client (build_request sql_text d) w) = Raises e"
    and "\<not> isinstance_Exception e"
  shows "execute_statement client sql_text d w =
           (Propagated e, snd (client_execute_statement client (build_request sql_text d) w))"
  using assms
  by (cases "client_execute_statement client (build_request sql_text d) w")
     (simp add: execute_statement_def)

lemma execute_statement_failure:
  assumes "fst (client_execute_statement client (build_request sql_text d) w) = Raises e"
    and "isinstance_Exception e"
    and "format_result e = Inl F"
    and "stdout_fault w (''Error executing SQL: '' @ F) = None"
    and "str_result e = Inl D"
  shows "fst (execute_statement client sql_text d w) = Returned (PDict [(''error'', PStr D)])"
    and "printed w (snd (execute_statement client sql_text d w))
           = ''Error executing SQL: '' @ F @ ''\<newline>''"
  using assms
  by (simp_all add: execute_statement_Raises_Exception handler_completes call_keeps printed_def)

lemma print_all_accepts:
  "\<forall>s\<in>set ms. stdout_fault w s = None \<Longrightarrow>
   print_all ms w = (Returned (), w\<lparr>stdout := stdout w @ unlines ms\<rparr>)"
proof (induction ms arbitrary: w)
  case Nil
  show ?case by (simp add: unlines_def)
next
  case (Cons s ss)
  let ?w' = "w\<lparr>stdout := stdout w @ s @ ''\<newline>''\<rparr>"
  from Cons.prems have "print s w = (Returned (), ?w')"
    by (simp add: print_accepts)
  moreover from Cons.prems have "\<forall>t\<in>set ss. stdout_fault ?w' t = None"
    by simp
  then have "print_all ss ?w' = (Returned (), ?w'\<lparr>stdout := stdout ?w' @ unlines ss\<rparr>)"
    by (rule Cons.IH)
  ultimately show ?case by (simp add: unlines_def)
qed

lemma print_all_uniform:
  "\<exists>r t. \<forall>cs out.
     print_all ms \<lparr>calls = cs, stdout = out, stdout_fault = f\<rparr>
       = (r, \<lparr>calls = cs, stdout = out @ t, stdout_fault = f\<rparr>)"
proof (induction ms)
  case Nil
  have "\<forall>cs out. print_all [] \<lparr>calls = cs, stdout = out, stdout_fault = f\<rparr>
          = (Returned (), \<lparr>calls = cs, stdout = out @ [], stdout_fault = f\<rparr>)"
    by simp
  then show ?case by blast
next
  case (Cons s ss)
  show ?case
  proof (cases "f s")
    case (Some e)
    then have "\<forall>cs out. print_all (s # ss) \<lparr>calls = cs, stdout = out, stdout_fault = f\<rparr>
                 = (Propagated e, \<lparr>calls = cs, stdout = out @ [], stdout_fault = f\<rparr>)"
      by (simp add: print_def)
    then show ?thesis by blast
  next
    case None
    from Cons.IH obtain r t where
      rest: "\<And>cs out. print_all ss \<lparr>calls = cs, stdout = out, stdout_fault = f\<rparr>
                = (r, \<lparr>calls = cs, stdout = out @ t, stdout_fault = f\<rparr>)"
      by blast
    from None have
      "\<forall>cs out. print_all (s # ss) \<lparr>calls = cs, stdout = out, stdout_fault = f\<rparr>
          = (r, \<lparr>calls = cs, stdout = out @ (s @ ''\<newline>'' @ t), stdout_fault = f\<rparr>)"
      by (simp add: print_def rest)
    then show ?thesis by blast
  qed
qed

lemma main_uniform:
  "\<exists>r t. \<forall>boto3_client cs out.
     main boto3_client \<lparr>calls = cs, stdout = out, stdout_fault = f\<rparr>
       = (r, \<lparr>calls = cs, stdout = out @ t, stdout_fault = f\<rparr>)"
proof -
  from print_all_uniform [of main_prints f] obtain r t where
    all: "\<And>cs out. print_all main_prints \<lparr>calls = cs, stdout = out, stdout_fault = f\<rparr>
             = (r, \<lparr>calls = cs, stdout = out @ t, stdout_fault = f\<rparr>)"
    by blast
  have "\<forall>boto3_client cs out.
          main boto3_client \<lparr>calls = cs, stdout = out, stdout_fault = f\<rparr>
            = (case r of Returned u \<Rightarrow> Returned True | Propagated e \<Rightarrow> Propagated e,
               \<lparr>calls = cs, stdout = out @ t, stdout_fault = f\<rparr>)"
    by (cases r) (simp_all add: main_def all)
  then show ?thesis by blast
qed

lemma unlines_main_prints:
  "unlines main_prints = unlines summary_lines"
  by (simp add: unlines_def main_prints_def summary_lines_def)

lemma main_accepted:
  assumes "\<forall>s\<in>set main_prints. stdout_fault w s = None"
  shows "main boto3_client w = (Returned True, w\<lparr>stdout := stdout w @ unlines summary_lines\<rparr>)"
  using assms by (simp add: main_def print_all_accepts unlines_main_prints)

section \<open>The result of \<^verbatim>\<open>execute_statement\<close>\<close>

text \<open>
  C1 (as amended). For every SQL string and database argument, \<^verbatim>\<open>execute_statement\<close>
  returns exactly one result and no exception leaves it, whenever the call of the client
  returns a payload, or raises (in the method, or before any method runs) an instance of
  \<^verbatim>\<open>Exception\<close> that can be formatted, whose error line standard output accepts, and
  for which \<^verbatim>\<open>str(e)\<close> returns a text. The result is the payload (success) or the
  dictionary \<^verbatim>\<open>{"error": str(e)}\<close> (failure).
\<close>

theorem execute_statement_returns_when_handled:
  assumes "(\<exists>P. fst (client_execute_statement client (build_request sql_text d) w) = Returns P)
           \<or> (\<exists>e F D.
                 fst (client_execute_statement client (build_request sql_text d) w) = Raises e
                 \<and> isinstance_Exception e
                 \<and> format_result e = Inl F
                 \<and> stdout_fault w (''Error executing SQL: '' @ F) = None
                 \<and> str_result e = Inl D)"
  shows "\<exists>!r. fst (execute_statement client sql_text d w) = Returned r
           \<and> (fst (client_execute_statement client (build_request sql_text d) w) = Returns r
              \<or> (\<exists>e D.
                    fst (client_execute_statement client (build_request sql_text d) w) = Raises e
                    \<and> str_result e = Inl D
                    \<and> r = PDict [(''error'', PStr D)]))"
  using assms
proof (elim disjE exE conjE)
  fix P
  assume "fst (client_execute_statement client (build_request sql_text d) w) = Returns P"
  then show ?thesis
    by (auto simp add: execute_statement_Returns)
next
  fix e F D
  assume "fst (client_execute_statement client (build_request sql_text d) w) = Raises e"
    and "isinstance_Exception e"
    and "format_result e = Inl F"
    and "stdout_fault w (''Error executing SQL: '' @ F) = None"
    and "str_result e = Inl D"
  then show ?thesis
    by (auto simp add: execute_statement_failure(1))
qed

text \<open>The theorem at a client whose call is refused by the service.\<close>

theorem execute_statement_returns_when_handled_witness:
  "fst (client_execute_statement
          (Client (always (Raises (raised_with (ExceptionClass ''ClientError'') ''access denied''))))
          (build_request ''SELECT 1'' None) (fresh utf8_stdout))
     = Raises (raised_with (ExceptionClass ''ClientError'') ''access denied'')
   \<and> isinstance_Exception (raised_with (ExceptionClass ''ClientError'') ''access denied'')
   \<and> format_result (raised_with (ExceptionClass ''ClientError'') ''access denied'')
       = Inl ''access denied''
   \<and> stdout_fault (fresh utf8_stdout) (''Error executing SQL: '' @ ''access denied'') = None
   \<and> str_result (raised_with (ExceptionClass ''ClientError'') ''access denied'')
       = Inl ''access denied''
   \<and> fst (execute_statement
            (Client (always (Raises (raised_with (ExceptionClass ''ClientError'') ''access denied''))))
            ''SELECT 1'' None (fresh utf8_stdout))
       = Returned (PDict [(''error'', PStr ''access denied'')])"
proof -
  let ?e = "raised_with (ExceptionClass ''ClientError'') ''access denied''"
  let ?c = "Client (always (Raises ?e))"
  have facts:
    "fst (client_execute_statement ?c (build_request ''SELECT 1'' None) (fresh utf8_stdout))
       = Raises ?e"
    "isinstance_Exception ?e"
    "format_result ?e = Inl ''access denied''"
    "stdout_fault (fresh utf8_stdout) (''Error executing SQL: '' @ ''access denied'') = None"
    "str_result ?e = Inl ''access denied''"
    by (simp_all add: always_def raised_with_def fresh_def utf8_stdout_def)
  then have h:
    "(\<exists>P. fst (client_execute_statement ?c (build_request ''SELECT 1'' None) (fresh utf8_stdout))
            = Returns P)
     \<or> (\<exists>e F D.
           fst (client_execute_statement ?c (build_request ''SELECT 1'' None) (fresh utf8_stdout))
             = Raises e
           \<and> isinstance_Exception e
           \<and> format_result e = Inl F
           \<and> stdout_fault (fresh utf8_stdout) (''Error executing SQL: '' @ F) = None
           \<and> str_result e = Inl D)"
    by blast
  from execute_statement_returns_when_handled [OF h] facts
  show ?thesis by auto
qed

text \<open>
  C1 as stated fails, in three ways. \<^verbatim>\<open>except Exception\<close> does not handle a
  \<^verbatim>\<open>KeyboardInterrupt\<close> raised while the client's call is running. Inside the handler,
  an exception whose string method raises \<^verbatim>\<open>RuntimeError\<close> makes the f-string of
  line 32 raise it; and an error line with a character outside ASCII makes
  \<^verbatim>\<open>print\<close> raise \<^verbatim>\<open>UnicodeEncodeError\<close> on a standard output with the ASCII
  encoding. Each time an exception leaves \<^verbatim>\<open>execute_statement\<close>.
\<close>

theorem execute_statement_lets_exceptions_out:
  "fst (execute_statement (Client (always (Raises (raised_with KeyboardInterrupt ''''))))
          ''SELECT 1'' None (fresh utf8_stdout))
     = Propagated (raised_with KeyboardInterrupt '''')
   \<and> isinstance_Exception
        (Exc (ExceptionClass ''BrokenError'') ''boom''
           (Inr (raised_with (ExceptionClass ''RuntimeError'') ''no text''))
           (Inr (raised_with (ExceptionClass ''RuntimeError'') ''no text'')))
   \<and> fst (execute_statement
            (Client (always (Raises
               (Exc (ExceptionClass ''BrokenError'') ''boom''
                  (Inr (raised_with (ExceptionClass ''RuntimeError'') ''no text''))
                  (Inr (raised_with (ExceptionClass ''RuntimeError'') ''no text''))))))
            ''SELECT 1'' None (fresh utf8_stdout))
       = Propagated (raised_with (ExceptionClass ''RuntimeError'') ''no text'')
   \<and> isinstance_Exception
        (raised_with (ExceptionClass ''ClientError'') (''caf'' @ [CHR 0xC3, CHR 0xA9]))
   \<and> fst (execute_statement
            (Client (always (Raises
               (raised_with (ExceptionClass ''ClientError'') (''caf'' @ [CHR 0xC3, CHR 0xA9])))))
            ''SELECT 1'' None (fresh ascii_stdout))
       = Propagated
           (Exc (ExceptionClass ''UnicodeEncodeError'') ''ordinal not in range(128)''
              (Inl ''ordinal not in range(128)'') (Inl ''ordinal not in range(128)''))"
  by (simp add: execute_statement_def handler_def print_def always_def raised_with_def
      fresh_def utf8_stdout_def ascii_stdout_def)

text \<open>
  C3. For every SQL string and database argument, if the client's call returns the
  payload \<open>P\<close>, then \<^verbatim>\<open>execute_statement\<close> returns \<open>P\<close> itself, and writes nothing.
\<close>

theorem success_payload_passed_through:
  assumes "fst (client_execute_statement client (build_request sql_text d) w) = Returns P"
  shows "fst (execute_statement client sql_text d w) = Returned P
         \<and> printed w (snd (execute_statement client sql_text d w)) = ''''"
  using assms by (simp add: execute_statement_Returns printed_def call_keeps)

text \<open>The theorem at a client that answers with an update count.\<close>

theorem success_payload_passed_through_witness:
  "fst (client_execute_statement
          (Client (always (Returns (PDict [(''numberOfRecordsUpdated'', PInt 0)]))))
          (build_request ''CREATE TABLE t (id int)'' (Some ''transplant_platform''))
          (fresh utf8_stdout))
     = Returns (PDict [(''numberOfRecordsUpdated'', PInt 0)])
   \<and> fst (execute_statement
            (Client (always (Returns (PDict [(''numberOfRecordsUpdated'', PInt 0)]))))
            ''CREATE TABLE t (id int)'' (Some ''transplant_platform'') (fresh utf8_stdout))
       = Returned (PDict [(''numberOfRecordsUpdated'', PInt 0)])
   \<and> printed (fresh utf8_stdout)
        (snd (execute_statement
            (Client (always (Returns (PDict [(''numberOfRecordsUpdated'', PInt 0)]))))
            ''CREATE TABLE t (id int)'' (Some ''transplant_platform'') (fresh utf8_stdout)))
       = ''''"
proof -
  have h: "fst (client_execute_statement
          (Client (always (Returns (PDict [(''numberOfRecordsUpdated'', PInt 0)]))))
          (build_request ''CREATE TABLE t (id int)'' (Some ''transplant_platform''))
          (fresh utf8_stdout))
     = Returns (PDict [(''numberOfRecordsUpdated'', PInt 0)])"
    by (simp add: always_def)
  from success_payload_passed_through [OF h] h show ?thesis by simp
qed

text \<open>
  C4 (as amended). For every SQL string and database argument, if the client's call
  raises an instance of \<^verbatim>\<open>Exception\<close> with the message \<open>M\<close>, the exception can be
  formatted, standard output accepts the error line and \<^verbatim>\<open>str(e)\<close> returns the text
  \<open>D\<close>, then \<^verbatim>\<open>execute_statement\<close> returns the failure dictionary and its description
  is \<open>D\<close>; the description contains \<open>M\<close> when \<open>D\<close> does.
\<close>

theorem Exception_text_in_failure:
  assumes "fst (client_execute_statement client (build_request sql_text d) w) = Raises e"
    and "isinstance_Exception e"
    and "format_result e = Inl F"
    and "stdout_fault w (''Error executing SQL: '' @ F) = None"
    and "str_result e = Inl D"
    and "message e = M"
    and "sublist M D"
  shows "\<exists>description.
           fst (execute_statement client sql_text d w)
             = Returned (PDict [(''error'', PStr description)])
           \<and> description = D
           \<and> sublist M description"
  using assms by (simp add: execute_statement_failure(1))

text \<open>
  The theorem at a client that rejects a malformed statement with an exception whose
  text wraps the message.
\<close>

theorem Exception_text_in_failure_witness:
  "fst (client_execute_statement
          (Client (always (Raises
             (Exc (ExceptionClass ''BadRequestException'') ''syntax error at or near SELEC''
                (Inl ''An error occurred: syntax error at or near SELEC'')
                (Inl ''An error occurred: syntax error at or near SELEC'')))))
          (build_request ''SELEC 1'' None) (fresh utf8_stdout))
     = Raises
         (Exc (ExceptionClass ''BadRequestException'') ''syntax error at or near SELEC''
            (Inl ''An error occurred: syntax error at or near SELEC'')
            (Inl ''An error occurred: syntax error at or near SELEC''))
   \<and> sublist ''syntax error at or near SELEC''
        ''An error occurred: syntax error at or near SELEC''
   \<and> fst (execute_statement
          (Client (always (Raises
             (Exc (ExceptionClass ''BadRequestException'') ''syntax error at or near SELEC''
                (Inl ''An error occurred: syntax error at or near SELEC'')
                (Inl ''An error occurred: syntax error at or near SELEC'')))))
          ''SELEC 1'' None (fresh utf8_stdout))
       = Returned (PDict [(''error'', PStr ''An error occurred: syntax error at or near SELEC'')])"
proof -
  let ?D = "''An error occurred: syntax error at or near SELEC''"
  let ?M = "''syntax error at or near SELEC''"
  let ?e = "Exc (ExceptionClass ''BadRequestException'') ?M (Inl ?D) (Inl ?D)"
  let ?c = "Client (always (Raises ?e))"
  have sub: "sublist ?M ?D"
  proof -
    have "?D = ''An error occurred: '' @ ?M @ []" by simp
    then show ?thesis unfolding sublist_def by blast
  qed
  have call: "fst (client_execute_statement ?c (build_request ''SELEC 1'' None) (fresh utf8_stdout))
                = Raises ?e"
    by (simp add: always_def)
  have out: "stdout_fault (fresh utf8_stdout) (''Error executing SQL: '' @ ?D) = None"
    by (simp add: fresh_def utf8_stdout_def)
  from Exception_text_in_failure [OF call _ _ out _ _ sub] call sub
  show ?thesis by simp
qed

text \<open>
  C4 as stated fails. A \<^verbatim>\<open>KeyError\<close> is an instance of \<^verbatim>\<open>Exception\<close>; raised with
  a message that has a newline between \<^verbatim>\<open>a\<close> and \<^verbatim>\<open>b\<close>, its \<^verbatim>\<open>str\<close> is the six
  characters quote, a, backslash, n, b, quote, so the description of the failure does not
  contain the message. And a \<^verbatim>\<open>SystemExit\<close> with the message
  \<^verbatim>\<open>quota exceeded\<close> is not an instance of \<^verbatim>\<open>Exception\<close>: it leaves
  \<^verbatim>\<open>execute_statement\<close>, which returns no failure dictionary.
\<close>

theorem description_is_str_not_message:
  "isinstance_Exception
     (Exc (ExceptionClass ''KeyError'') ''a\<newline>b''
        (Inl [CHR 0x27, CHR ''a'', CHR 0x5C, CHR ''n'', CHR ''b'', CHR 0x27])
        (Inl [CHR 0x27, CHR ''a'', CHR 0x5C, CHR ''n'', CHR ''b'', CHR 0x27]))
   \<and> message
       (Exc (ExceptionClass ''KeyError'') ''a\<newline>b''
          (Inl [CHR 0x27, CHR ''a'', CHR 0x5C, CHR ''n'', CHR ''b'', CHR 0x27])
          (Inl [CHR 0x27, CHR ''a'', CHR 0x5C, CHR ''n'', CHR ''b'', CHR 0x27]))
       = ''a\<newline>b''
   \<and> fst (execute_statement
            (Client (always (Raises
               (Exc (ExceptionClass ''KeyError'') ''a\<newline>b''
                  (Inl [CHR 0x27, CHR ''a'', CHR 0x5C, CHR ''n'', CHR ''b'', CHR 0x27])
                  (Inl [CHR 0x27, CHR ''a'', CHR 0x5C, CHR ''n'', CHR ''b'', CHR 0x27])))))
            ''SELECT 1'' None (fresh utf8_stdout))
       = Returned (PDict [(''error'',
            PStr [CHR 0x27, CHR ''a'', CHR 0x5C, CHR ''n'', CHR ''b'', CHR 0x27])])
   \<and> \<not> sublist ''a\<newline>b'' [CHR 0x27, CHR ''a'', CHR 0x5C, CHR ''n'', CHR ''b'', CHR 0x27]
   \<and> message (raised_with SystemExit ''quota exceeded'') = ''quota exceeded''
   \<and> fst (execute_statement
            (Client (always (Raises (raised_with SystemExit ''quota exceeded''))))
            ''SELECT 1'' (Some ''postgres'') (fresh utf8_stdout))
       = Propagated (raised_with SystemExit ''quota exceeded'')"
proof -
  have "\<not> sublist ''a\<newline>b'' [CHR 0x27, CHR ''a'', CHR 0x5C, CHR ''n'', CHR ''b'', CHR 0x27]"
  proof
    assume "sublist ''a\<newline>b'' [CHR 0x27, CHR ''a'', CHR 0x5C, CHR ''n'', CHR ''b'', CHR 0x27]"
    then have "set ''a\<newline>b''
                 \<subseteq> set [CHR 0x27, CHR ''a'', CHR 0x5C, CHR ''n'', CHR ''b'', CHR 0x27]"
      by (rule set_mono_sublist)
    then show False by simp
  qed
  then show ?thesis
    by (simp add: execute_statement_def handler_def print_def always_def raised_with_def
        fresh_def utf8_stdout_def)
qed

text \<open>
  C10 (as amended). The failure result of \<^verbatim>\<open>execute_statement\<close> is a dictionary whose
  sole key is \<^verbatim>\<open>"error"\<close>, mapped to the message string \<^verbatim>\<open>str(e)\<close> of the exception.
  Success and failure are therefore not disjoint: a client that returns exactly the
  payload \<^verbatim>\<open>{"error": D}\<close> makes \<^verbatim>\<open>execute_statement\<close> return the value that it
  returns for a client raising an \<^verbatim>\<open>Exception\<close> with \<^verbatim>\<open>str(e)\<close> equal to \<open>D\<close> (only
  the line written to standard output differs), and a successful payload with an
  \<^verbatim>\<open>"error"\<close> key passes the test \<^verbatim>\<open>"error" in result\<close> as every failure result does.
\<close>

theorem failure_dict_overlaps_success:
  assumes "fst (client_execute_statement client_f (build_request sql_text d) w) = Raises e"
    and "isinstance_Exception e"
    and "format_result e = Inl F"
    and "stdout_fault w (''Error executing SQL: '' @ F) = None"
    and "str_result e = Inl D"
    and "fst (client_execute_statement client_s (build_request sql_text d) w)
           = Returns (PDict [(''error'', PStr D)])"
    and "fst (client_execute_statement client_p (build_request sql_text d) w) = Returns P"
    and "has_key ''error'' P"
  shows "fst (execute_statement client_f sql_text d w) = Returned (PDict [(''error'', PStr D)])
         \<and> keys (PDict [(''error'', PStr D)]) = [''error'']
         \<and> fst (execute_statement client_s sql_text d w)
           = fst (execute_statement client_f sql_text d w)
         \<and> (\<exists>r. fst (execute_statement client_f sql_text d w) = Returned r
                \<and> has_key ''error'' r)
         \<and> (\<exists>r. fst (execute_statement client_p sql_text d w) = Returned r
                \<and> has_key ''error'' r)"
  using assms
  by (simp add: execute_statement_failure(1) execute_statement_Returns)

text \<open>
  The theorem at a client that times out, a client that answers \<^verbatim>\<open>{"error": "timeout"}\<close>
  and a client whose answer has an \<^verbatim>\<open>"error"\<close> key among others.
\<close>

theorem failure_dict_overlaps_success_witness:
  "fst (client_execute_statement
          (Client (always (Raises (raised_with (ExceptionClass ''ClientError'') ''timeout''))))
          (build_request ''SELECT 1'' None) (fresh utf8_stdout))
     = Raises (raised_with (ExceptionClass ''ClientError'') ''timeout'')
   \<and> isinstance_Exception (raised_with (ExceptionClass ''ClientError'') ''timeout'')
   \<and> format_result (raised_with (ExceptionClass ''ClientError'') ''timeout'') = Inl ''timeout''
   \<and> stdout_fault (fresh utf8_stdout) (''Error executing SQL: '' @ ''timeout'') = None
   \<and> str_result (raised_with (ExceptionClass ''ClientError'') ''timeout'') = Inl ''timeout''
   \<and> fst (client_execute_statement
          (Client (always (Returns (PDict [(''error'', PStr ''timeout'')]))))
          (build_request ''SELECT 1'' None) (fresh utf8_stdout))
     = Returns (PDict [(''error'', PStr ''timeout'')])
   \<and> fst (client_execute_statement
          (Client (always (Returns (PDict [(''records'', PList []), (''error'', PNone)]))))
          (build_request ''SELECT 1'' None) (fresh utf8_stdout))
     = Returns (PDict [(''records'', PList []), (''error'', PNone)])
   \<and> has_key ''error'' (PDict [(''records'', PList []), (''error'', PNone)])
   \<and> fst (execute_statement (Client (always (Returns (PDict [(''error'', PStr ''timeout'')]))))
          ''SELECT 1'' None (fresh utf8_stdout))
     = fst (execute_statement
          (Client (always (Raises (raised_with (ExceptionClass ''ClientError'') ''timeout''))))
          ''SELECT 1'' None (fresh utf8_stdout))
   \<and> fst (execute_statement
          (Client (always (Raises (raised_with (ExceptionClass ''ClientError'') ''timeout''))))
          ''SELECT 1'' None (fresh utf8_stdout))
     = Returned (PDict [(''error'', PStr ''timeout'')])"
proof -
  let ?e = "raised_with (ExceptionClass ''ClientError'') ''timeout''"
  let ?P = "PDict [(''records'', PList []), (''error'', PNone)]"
  let ?req = "build_request ''SELECT 1'' None"
  have f: "fst (client_execute_statement (Client (always (Raises ?e))) ?req (fresh utf8_stdout))
             = Raises ?e"
    by (simp add: always_def)
  have i: "isinstance_Exception ?e" by (simp add: raised_with_def)
  have t: "format_result ?e = Inl ''timeout''" "str_result ?e = Inl ''timeout''"
    by (simp_all add: raised_with_def)
  have out: "stdout_fault (fresh utf8_stdout) (''Error executing SQL: '' @ ''timeout'') = None"
    by (simp add: fresh_def utf8_stdout_def)
  have s: "fst (client_execute_statement
             (Client (always (Returns (PDict [(''error'', PStr ''timeout'')])))) ?req
             (fresh utf8_stdout))
             = Returns (PDict [(''error'', PStr ''timeout'')])"
    by (simp add: always_def)
  have p: "fst (client_execute_statement (Client (always (Returns ?P))) ?req (fresh utf8_stdout))
             = Returns ?P"
    by (simp add: always_def)
  have k: "has_key ''error'' ?P" by simp
  from failure_dict_overlaps_success [OF f i t(1) out t(2) s p k] f i t out s p k
  show ?thesis by simp
qed

text \<open>
  C10 as stated fails: the payload \<^verbatim>\<open>{"error": "x", "records": []}\<close> contains an
  \<^verbatim>\<open>"error"\<close> key and is returned as it is, but it has a second key, so no failure
  result is equal to it and its keys tell it apart from every failure result.
\<close>

theorem payload_with_second_key_differs_from_failures:
  "has_key ''error'' (PDict [(''error'', PStr ''x''), (''records'', PList [])])
   \<and> fst (execute_statement
            (Client (always (Returns (PDict [(''error'', PStr ''x''), (''records'', PList [])]))))
            ''SELECT 1'' None (fresh utf8_stdout))
       = Returned (PDict [(''error'', PStr ''x''), (''records'', PList [])])
   \<and> keys (PDict [(''error'', PStr ''x''), (''records'', PList [])]) \<noteq> [''error'']
   \<and> \<not> (\<exists>client sql_text d w e.
           fst (client_execute_statement client (build_request sql_text d) w) = Raises e
           \<and> fst (execute_statement client sql_text d w)
               = Returned (PDict [(''error'', PStr ''x''), (''records'', PList [])]))"
proof -
  have "\<not> (\<exists>client sql_text d w e.
           fst (client_execute_statement client (build_request sql_text d) w) = Raises e
           \<and> fst (execute_statement client sql_text d w)
               = Returned (PDict [(''error'', PStr ''x''), (''records'', PList [])]))"
  proof
    assume "\<exists>client sql_text d w e.
           fst (client_execute_statement client (build_request sql_text d) w) = Raises e
           \<and> fst (execute_statement client sql_text d w)
               = Returned (PDict [(''error'', PStr ''x''), (''records'', PList [])])"
    then obtain client sql_text d w e where
      raises: "fst (client_execute_statement client (build_request sql_text d) w) = Raises e"
      and result: "fst (execute_statement client sql_text d w)
                     = Returned (PDict [(''error'', PStr ''x''), (''records'', PList [])])"
      by blast
    show False
    proof (cases "isinstance_Exception e")
      case True
      with raises result have
        "fst (handler e (snd (client_execute_statement client (build_request sql_text d) w)))
           = Returned (PDict [(''error'', PStr ''x''), (''records'', PList [])])"
        by (simp add: execute_statement_Raises_Exception)
      then show False by (auto dest: handler_Returned)
    next
      case False
      with raises result show False
        by (simp add: execute_statement_Raises_other)
    qed
  qed
  then show ?thesis
    by (simp add: execute_statement_def always_def)
qed

section \<open>The request that reaches the service\<close>

text \<open>
  C2 (as amended). When \<^verbatim>\<open>execute_statement\<close> is called without a database argument,
  the request forwarded to the service carries the default of the parameter, the literal
  \<^verbatim>\<open>"postgres"\<close>, which is not the value of \<^verbatim>\<open>DATABASE_NAME\<close>.
\<close>

theorem default_database_is_postgres:
  "calls (snd (execute_statement (Client m) sql_text None w))
     = calls w @ [\<lparr>resourceArn = DB_CLUSTER_ARN, secretArn = SECRET_ARN,
                    database = ''postgres'', sql = sql_text\<rparr>]
   \<and> ''postgres'' \<noteq> DATABASE_NAME"
  by (simp add: calls_execute_statement_Client build_request_def database_arg_def
      DATABASE_NAME_def)

text \<open>
  C2 as stated fails: a call without a database argument forwards a request whose
  database is not \<^verbatim>\<open>DATABASE_NAME\<close>.
\<close>

theorem default_database_is_not_DATABASE_NAME:
  "database (last (calls (snd (execute_statement (Client (always (Returns (PDict []))))
       ''SELECT 1'' None (fresh utf8_stdout))))) \<noteq> DATABASE_NAME"
  by (simp add: calls_execute_statement_Client build_request_def database_arg_def
      DATABASE_NAME_def)

text \<open>
  C5. On every invocation of \<^verbatim>\<open>execute_statement\<close> the request forwarded to the
  service carries \<^verbatim>\<open>DB_CLUSTER_ARN\<close> and \<^verbatim>\<open>SECRET_ARN\<close>, whatever the method of the
  client, the arguments and the state are: two invocations (the primed and the unprimed
  one) forward the same two identifiers. The identifiers are constants of the module; no
  operation has them in the state that it changes.
\<close>

theorem fixed_identifiers_forwarded:
  "calls (snd (execute_statement (Client m) sql_text d w))
     = calls w @ [last (calls (snd (execute_statement (Client m) sql_text d w)))]
   \<and> resourceArn (last (calls (snd (execute_statement (Client m) sql_text d w))))
       = DB_CLUSTER_ARN
   \<and> secretArn (last (calls (snd (execute_statement (Client m) sql_text d w)))) = SECRET_ARN
   \<and> resourceArn (last (calls (snd (execute_statement (Client m) sql_text d w))))
       = resourceArn (last (calls (snd (execute_statement (Client m') sql_text' d' w'))))
   \<and> secretArn (last (calls (snd (execute_statement (Client m) sql_text d w))))
       = secretArn (last (calls (snd (execute_statement (Client m') sql_text' d' w'))))"
  by (simp add: calls_execute_statement_Client build_request_def)

text \<open>
  C8. \<^verbatim>\<open>execute_statement\<close> checks nothing: for every SQL string and every database
  name, the empty strings among them, the request that reaches the service holds both
  exactly as given, whatever the method of the client then does.
\<close>

theorem arguments_forwarded_unchecked:
  "calls (snd (execute_statement (Client m) sql_text (Some db) w))
     = calls w @ [\<lparr>resourceArn = DB_CLUSTER_ARN, secretArn = SECRET_ARN,
                    database = db, sql = sql_text\<rparr>]
   \<and> calls (snd (execute_statement (Client m) '''' (Some '''') w))
     = calls w @ [\<lparr>resourceArn = DB_CLUSTER_ARN, secretArn = SECRET_ARN,
                    database = '''', sql = ''''\<rparr>]"
  by (simp add: calls_execute_statement_Client build_request_def database_arg_def)

text \<open>
  C9 (as amended). Each invocation of \<^verbatim>\<open>execute_statement\<close> on a client that has the
  method calls it exactly once: the requests that reached the service are the earlier
  ones and the one of this invocation, and the result is decided by the answer that the
  method gives to that one call, after the requests before it. A response is returned, an
  exception that is no instance of \<^verbatim>\<open>Exception\<close> leaves the function, and an
  \<^verbatim>\<open>Exception\<close> goes to the handler, which makes no call: a failure is not retried.
  On an object without the method (\<open>No_call\<close>) no request reaches the service.
\<close>

theorem method_called_exactly_once:
  "calls (snd (execute_statement (Client m) sql_text d w)) = calls w @ [build_request sql_text d]
   \<and> length (calls (snd (execute_statement (Client m) sql_text d w))) = length (calls w) + 1
   \<and> (\<forall>P. m (calls w) (build_request sql_text d) = Returns P \<longrightarrow>
          fst (execute_statement (Client m) sql_text d w) = Returned P)
   \<and> (\<forall>e. m (calls w) (build_request sql_text d) = Raises e \<and> \<not> isinstance_Exception e \<longrightarrow>
          fst (execute_statement (Client m) sql_text d w) = Propagated e)
   \<and> (\<forall>e. m (calls w) (build_request sql_text d) = Raises e \<and> isinstance_Exception e \<longrightarrow>
          fst (execute_statement (Client m) sql_text d w)
            = fst (handler e (w\<lparr>calls := calls w @ [build_request sql_text d]\<rparr>)))
   \<and> calls (snd (execute_statement (No_call e0) sql_text d w)) = calls w"
proof -
  have "calls (snd (execute_statement (Client m) sql_text d w))
          = calls w @ [build_request sql_text d]"
    by (rule calls_execute_statement_Client)
  moreover have "\<forall>P. m (calls w) (build_request sql_text d) = Returns P \<longrightarrow>
          fst (execute_statement (Client m) sql_text d w) = Returned P"
    by (simp add: execute_statement_def)
  moreover have
    "\<forall>e. m (calls w) (build_request sql_text d) = Raises e \<and> \<not> isinstance_Exception e \<longrightarrow>
          fst (execute_statement (Client m) sql_text d w) = Propagated e"
    by (simp add: execute_statement_def)
  moreover have
    "\<forall>e. m (calls w) (build_request sql_text d) = Raises e \<and> isinstance_Exception e \<longrightarrow>
          fst (execute_statement (Client m) sql_text d w)
            = fst (handler e (w\<lparr>calls := calls w @ [build_request sql_text d]\<rparr>))"
    by (simp add: execute_statement_def)
  moreover have "calls (snd (execute_statement (No_call e0) sql_text d w)) = calls w"
    by (rule calls_execute_statement_No_call)
  ultimately show ?thesis by simp
qed

text \<open>
  The theorem at a service that fails on its first request and would succeed on the
  second: the failure is returned, and one request reached the service.
\<close>

theorem method_called_exactly_once_witness:
  "fails_first (raised_with (ExceptionClass ''ClientError'') ''timeout'')
      (PDict [(''records'', PList [])])
      (calls (fresh utf8_stdout)) (build_request ''SELECT 1'' None)
     = Raises (raised_with (ExceptionClass ''ClientError'') ''timeout'')
   \<and> isinstance_Exception (raised_with (ExceptionClass ''ClientError'') ''timeout'')
   \<and> fails_first (raised_with (ExceptionClass ''ClientError'') ''timeout'')
      (PDict [(''records'', PList [])])
      (calls (fresh utf8_stdout) @ [build_request ''SELECT 1'' None])
      (build_request ''SELECT 1'' None)
     = Returns (PDict [(''records'', PList [])])
   \<and> calls (snd (execute_statement
        (Client (fails_first (raised_with (ExceptionClass ''ClientError'') ''timeout'')
           (PDict [(''records'', PList [])])))
        ''SELECT 1'' None (fresh utf8_stdout)))
     = [build_request ''SELECT 1'' None]
   \<and> fst (execute_statement
        (Client (fails_first (raised_with (ExceptionClass ''ClientError'') ''timeout'')
           (PDict [(''records'', PList [])])))
        ''SELECT 1'' None (fresh utf8_stdout))
     = Returned (PDict [(''error'', PStr ''timeout'')])"
proof -
  let ?e = "raised_with (ExceptionClass ''ClientError'') ''timeout''"
  let ?m = "fails_first ?e (PDict [(''records'', PList [])])"
  let ?req = "build_request ''SELECT 1'' None"
  have first: "?m (calls (fresh utf8_stdout)) ?req = Raises ?e"
    and inst: "isinstance_Exception ?e"
    and second: "?m (calls (fresh utf8_stdout) @ [?req]) ?req = Returns (PDict [(''records'', PList [])])"
    by (simp_all add: fails_first_def fresh_def raised_with_def)
  have h: "fst (handler ?e ((fresh utf8_stdout)\<lparr>calls := calls (fresh utf8_stdout) @ [?req]\<rparr>))
             = Returned (PDict [(''error'', PStr ''timeout'')])"
    by (simp add: handler_def print_def raised_with_def fresh_def utf8_stdout_def)
  from method_called_exactly_once [of ?m "''SELECT 1''" None "fresh utf8_stdout"]
  have "calls (snd (execute_statement (Client ?m) ''SELECT 1'' None (fresh utf8_stdout)))
          = calls (fresh utf8_stdout) @ [?req]"
    and "fst (execute_statement (Client ?m) ''SELECT 1'' None (fresh utf8_stdout))
          = fst (handler ?e ((fresh utf8_stdout)\<lparr>calls := calls (fresh utf8_stdout) @ [?req]\<rparr>))"
    using first inst by blast+
  with h first inst second show ?thesis
    by (simp add: fresh_def)
qed

text \<open>
  C9 as stated fails: for an object without the method, such as \<^verbatim>\<open>None\<close>, looking up
  \<^verbatim>\<open>client.execute_statement\<close> inside the \<^verbatim>\<open>try\<close> block raises \<^verbatim>\<open>AttributeError\<close>;
  the handler returns the failure dictionary and no call was made.
\<close>

theorem no_call_on_object_without_method:
  "isinstance_Exception
     (raised_with (ExceptionClass ''AttributeError'')
        ([CHR 0x27] @ ''NoneType'' @ [CHR 0x27] @ '' object has no attribute ''
          @ [CHR 0x27] @ ''execute_statement'' @ [CHR 0x27]))
   \<and> calls (snd (execute_statement
        (No_call (raised_with (ExceptionClass ''AttributeError'')
           ([CHR 0x27] @ ''NoneType'' @ [CHR 0x27] @ '' object has no attribute ''
             @ [CHR 0x27] @ ''execute_statement'' @ [CHR 0x27])))
        ''SELECT 1'' None (fresh utf8_stdout)))
     = []
   \<and> fst (execute_statement
        (No_call (raised_with (ExceptionClass ''AttributeError'')
           ([CHR 0x27] @ ''NoneType'' @ [CHR 0x27] @ '' object has no attribute ''
             @ [CHR 0x27] @ ''execute_statement'' @ [CHR 0x27])))
        ''SELECT 1'' None (fresh utf8_stdout))
     = Returned (PDict [(''error'',
          PStr ([CHR 0x27] @ ''NoneType'' @ [CHR 0x27] @ '' object has no attribute ''
            @ [CHR 0x27] @ ''execute_statement'' @ [CHR 0x27]))])"
  by (simp add: execute_statement_def handler_def print_def raised_with_def fresh_def
      utf8_stdout_def)

section \<open>The entry point\<close>

text \<open>
  C6 (as amended). In every environment in which the imports of the module succeed and
  standard output accepts each of the 30 texts that \<^verbatim>\<open>main\<close> prints, \<^verbatim>\<open>main\<close> returns
  \<^verbatim>\<open>True\<close> and the script ends with exit status 0, after writing the 34 lines of the
  summary, whatever the SDK and the state before the run are and without any call of the
  service.
\<close>

theorem main_prints_summary_and_succeeds:
  assumes "\<forall>s\<in>set main_prints. stdout_fault w s = None"
  shows "fst (main boto3_client w) = Returned True
         \<and> fst (script None boto3_client w) = Exit_success
         \<and> printed w (snd (main boto3_client w)) = unlines summary_lines
         \<and> printed w (snd (script None boto3_client w)) = unlines summary_lines
         \<and> calls (snd (main boto3_client w)) = calls w
         \<and> length summary_lines = 34
         \<and> unlines summary_lines \<noteq> ''''"
proof -
  have "length summary_lines = 34"
    by (simp add: summary_lines_def)
  moreover have "unlines summary_lines \<noteq> ''''"
    by (simp add: unlines_def summary_lines_def)
  moreover note main_accepted [OF assms, of boto3_client]
  ultimately show ?thesis
    by (simp add: printed_def script_def)
qed

text \<open>The theorem at a standard output with the UTF-8 encoding.\<close>

theorem main_prints_summary_and_succeeds_witness:
  "list_all (\<lambda>s. stdout_fault (fresh utf8_stdout) s = None) main_prints
   \<and> fst (main (\<lambda>name region. Client (always (Returns PNone))) (fresh utf8_stdout))
       = Returned True
   \<and> fst (script None (\<lambda>name region. Client (always (Returns PNone))) (fresh utf8_stdout))
       = Exit_success
   \<and> stdout (snd (main (\<lambda>name region. Client (always (Returns PNone))) (fresh utf8_stdout)))
       = unlines summary_lines"
proof -
  have h: "\<forall>s\<in>set main_prints. stdout_fault (fresh utf8_stdout) s = None"
    by (simp add: fresh_def utf8_stdout_def)
  from main_prints_summary_and_succeeds
         [OF h, of "\<lambda>name region. Client (always (Returns PNone))"] h
  show ?thesis
    by (simp add: printed_def fresh_def list_all_iff)
qed

text \<open>
  C6 as stated fails. On a standard output with the ASCII encoding the fifth print
  statement (source line 42, whose text starts with U+2705) raises
  \<^verbatim>\<open>UnicodeEncodeError\<close>: \<^verbatim>\<open>main\<close> returns nothing, the script ends with the uncaught
  exception and only the first 5 lines were written. Where \<^verbatim>\<open>boto3\<close> is not installed,
  the import on source line 7 raises and the script ends before it wrote anything.
\<close>

theorem main_stops_where_stdout_refuses:
  "fst (main (\<lambda>name region. Client (always (Returns PNone))) (fresh ascii_stdout))
     = Propagated
         (Exc (ExceptionClass ''UnicodeEncodeError'') ''ordinal not in range(128)''
            (Inl ''ordinal not in range(128)'') (Inl ''ordinal not in range(128)''))
   \<and> fst (script None (\<lambda>name region. Client (always (Returns PNone))) (fresh ascii_stdout))
     = Uncaught
         (Exc (ExceptionClass ''UnicodeEncodeError'') ''ordinal not in range(128)''
            (Inl ''ordinal not in range(128)'') (Inl ''ordinal not in range(128)''))
   \<and> stdout (snd (main (\<lambda>name region. Client (always (Returns PNone))) (fresh ascii_stdout)))
     = unlines (take 5 summary_lines)
   \<and> script (Some (raised_with (ExceptionClass ''ModuleNotFoundError'')
              (''No module named '' @ [CHR 0x27] @ ''boto3'' @ [CHR 0x27])))
        (\<lambda>name region. Client (always (Returns PNone))) (fresh utf8_stdout)
     = (Uncaught (raised_with (ExceptionClass ''ModuleNotFoundError'')
              (''No module named '' @ [CHR 0x27] @ ''boto3'' @ [CHR 0x27])),
        fresh utf8_stdout)
   \<and> stdout (fresh utf8_stdout) = ''''"
  by (simp add: main_def script_def main_prints_def print_def ascii_stdout_def fresh_def
      unlines_def summary_lines_def)

text \<open>
  C7. Two runs of \<^verbatim>\<open>main\<close> on the same standard output, under any two behaviours of
  the SDK and of the service behind it, after any requests and any earlier output, write
  the same text and end the same way; and \<^verbatim>\<open>main\<close> sends no request to the service, so
  \<^verbatim>\<open>execute_statement\<close> was not invoked.
\<close>

theorem main_summary_independent_of_service:
  "printed \<lparr>calls = cs, stdout = out, stdout_fault = f\<rparr>
      (snd (main boto3_client \<lparr>calls = cs, stdout = out, stdout_fault = f\<rparr>))
     = printed \<lparr>calls = cs', stdout = out', stdout_fault = f\<rparr>
         (snd (main boto3_client' \<lparr>calls = cs', stdout = out', stdout_fault = f\<rparr>))
   \<and> fst (main boto3_client \<lparr>calls = cs, stdout = out, stdout_fault = f\<rparr>)
     = fst (main boto3_client' \<lparr>calls = cs', stdout = out', stdout_fault = f\<rparr>)
   \<and> calls (snd (main boto3_client \<lparr>calls = cs, stdout = out, stdout_fault = f\<rparr>)) = cs"
proof -
  from main_uniform [of f] obtain r t where
    "\<And>boto3_client cs out.
       main boto3_client \<lparr>calls = cs, stdout = out, stdout_fault = f\<rparr>
         = (r, \<lparr>calls = cs, stdout = out @ t, stdout_fault = f\<rparr>)"
    by blast
  then show ?thesis by (simp add: printed_def)
qed

end
